theory Spec2Isabelle
  imports Complex_Main "HOL-Library.Char_ord" "HOL-Library.List_Lexorder"
begin

section \<open>JavaScript helpers used by the components\<close>

text \<open>
  JavaScript numbers are modelled as \<^typ>\<open>real\<close> (or \<^typ>\<open>int\<close> where the source only
  produces integers); NaN, the infinities and rounding of doubles are outside the model.
  Strings are \<^typ>\<open>string\<close>. A string is truthy exactly when it is not empty, so the
  string \<open>''0''\<close> is truthy.
\<close>

type_synonym point = "real \<times> real"

definition truthy :: "string \<Rightarrow> bool" where
  "truthy s = (s \<noteq> [])"

text \<open>\<^verbatim>\<open>String.prototype.includes\<close>: the needle occurs somewhere in the string.\<close>

fun str_includes :: "string \<Rightarrow> string \<Rightarrow> bool" where
  "str_includes [] needle = (needle = [])"
| "str_includes (c # cs) needle = (take (length needle) (c # cs) = needle \<or> str_includes cs needle)"

text \<open>The character class \<^verbatim>\<open>\d\<close> of a JavaScript regular expression: ASCII 0 to 9.\<close>

definition is_digit :: "char \<Rightarrow> bool" where
  "is_digit c = (let n = (of_char c :: nat) in 48 \<le> n \<and> n \<le> 57)"

definition digit_val :: "char \<Rightarrow> nat" where
  "digit_val c = (of_char c :: nat) - 48"

text \<open>
  \<^verbatim>\<open>s.match(/\d+/g)\<close>: the maximal runs of digits, left to right; \<open>None\<close> is the
  \<^verbatim>\<open>null\<close> that \<^verbatim>\<open>match\<close> returns when there is no run. The first argument of
  \<open>digit_runs\<close> is the run being read.
\<close>

fun digit_runs :: "string \<Rightarrow> string \<Rightarrow> string list" where
  "digit_runs cur [] = (if cur = [] then [] else [cur])"
| "digit_runs cur (c # cs) =
     (if is_digit c then digit_runs (cur @ [c]) cs
      else (if cur = [] then [] else [cur]) @ digit_runs [] cs)"

definition match_digits :: "string \<Rightarrow> string list option" where
  "match_digits s = (case digit_runs [] s of [] \<Rightarrow> None | m # ms \<Rightarrow> Some (m # ms))"

text \<open>\<^verbatim>\<open>Number\<close> on a string of decimal digits.\<close>

definition Number :: "string \<Rightarrow> real" where
  "Number s = real (foldl (\<lambda>acc c. 10 * acc + digit_val c) 0 s)"

definition Math_min4 :: "real \<Rightarrow> real \<Rightarrow> real \<Rightarrow> real \<Rightarrow> real" where
  "Math_min4 a b c d = min (min (min a b) c) d"

definition Math_max4 :: "real \<Rightarrow> real \<Rightarrow> real \<Rightarrow> real \<Rightarrow> real" where
  "Math_max4 a b c d = max (max (max a b) c) d"

text \<open>\<^verbatim>\<open>Math.round\<close>: the nearest integer, a tie going up.\<close>

definition Math_round :: "real \<Rightarrow> int" where
  "Math_round v = \<lfloor>v + 1 / 2\<rfloor>"

section \<open>SeatingChart.tsx\<close>

subsection \<open>Data\<close>

record Venue =
  id_venue :: string
  name_venue :: string
  description_venue :: string
  seating_chart_data :: string

record VenueSection =
  id_section :: string
  name_section :: string
  color :: string
  path :: string

record VenueData =
  sections :: "VenueSection list"

text \<open>The component's view state: the four \<^verbatim>\<open>useState\<close> cells the handlers touch.\<close>

record ViewportState =
  zoom :: real
  pan :: point
  isDragging :: bool
  dragStart :: point

definition initial_viewport :: ViewportState where
  "initial_viewport = \<lparr>zoom = 1, pan = (0, 0), isDragging = False, dragStart = (0, 0)\<rparr>"

text \<open>What \<^verbatim>\<open>getBoundingClientRect\<close> gives the click handler.\<close>

record DOMRect =
  rect_left :: real
  rect_top :: real

text \<open>
  The layout is read with \<^verbatim>\<open>JSON.parse\<close>, a built-in taken as a parameter here; \<open>None\<close>
  is the exception it throws. The \<^verbatim>\<open>catch\<close> branch substitutes an empty section list.
\<close>

definition venueData :: "(string \<Rightarrow> VenueData option) \<Rightarrow> Venue \<Rightarrow> VenueData" where
  "venueData JSON_parse venue =
     (case JSON_parse (seating_chart_data venue) of
        Some parsed \<Rightarrow> parsed
      | None \<Rightarrow> \<lparr>sections = []\<rparr>)"

subsection \<open>Zoom and pan handlers\<close>

definition handleZoomIn :: "ViewportState \<Rightarrow> ViewportState" where
  "handleZoomIn st = st\<lparr>zoom := min (zoom st * 1.2) 3\<rparr>"

definition handleZoomOut :: "ViewportState \<Rightarrow> ViewportState" where
  "handleZoomOut st = st\<lparr>zoom := max (zoom st / 1.2) 0.5\<rparr>"

definition handleReset :: "ViewportState \<Rightarrow> ViewportState" where
  "handleReset st = st\<lparr>zoom := 1, pan := (0, 0)\<rparr>"

definition handleMouseDown :: "ViewportState \<Rightarrow> nat \<Rightarrow> real \<Rightarrow> real \<Rightarrow> ViewportState" where
  "handleMouseDown st button clientX clientY =
     (if button = 0
      then st\<lparr>isDragging := True,
              dragStart := (clientX - fst (pan st), clientY - snd (pan st))\<rparr>
      else st)"

definition handleMouseMove :: "ViewportState \<Rightarrow> real \<Rightarrow> real \<Rightarrow> ViewportState" where
  "handleMouseMove st clientX clientY =
     (if isDragging st
      then st\<lparr>pan := (clientX - fst (dragStart st), clientY - snd (dragStart st))\<rparr>
      else st)"

definition handleMouseUp :: "ViewportState \<Rightarrow> ViewportState" where
  "handleMouseUp st = st\<lparr>isDragging := False\<rparr>"

subsection \<open>The click handler\<close>

text \<open>Lines 116 and 117: device coordinates to chart coordinates.\<close>

definition click_to_logical :: "DOMRect \<Rightarrow> point \<Rightarrow> real \<Rightarrow> point \<Rightarrow> point" where
  "click_to_logical rect pn zm client =
     ((fst client - rect_left rect - fst pn) / zm,
      (snd client - rect_top rect - snd pn) / zm)"

text \<open>The predicate handed to \<^verbatim>\<open>sections.find\<close> (lines 120 to 136).\<close>

definition section_hit :: "real \<Rightarrow> real \<Rightarrow> VenueSection \<Rightarrow> bool" where
  "section_hit x y section =
     (let pathData = path section in
      if str_includes pathData ''M'' \<and> str_includes pathData ''L'' \<and> str_includes pathData ''Z''
      then (case map_option (map Number) (match_digits pathData) of
              Some coords \<Rightarrow>
                if length coords \<ge> 8
                then (let x1 = coords ! 0; y1 = coords ! 1; x2 = coords ! 2; y2 = coords ! 3;
                          x3 = coords ! 4; y3 = coords ! 5; x4 = coords ! 6; y4 = coords ! 7
                      in x \<ge> Math_min4 x1 x2 x3 x4 \<and>
                         x \<le> Math_max4 x1 x2 x3 x4 \<and>
                         y \<ge> Math_min4 y1 y2 y3 y4 \<and>
                         y \<le> Math_max4 y1 y2 y3 y4)
                else False
            | None \<Rightarrow> False)
      else False)"

text \<open>
  \<open>handleChartClick\<close>: \<open>None\<close> is a return without calling \<^verbatim>\<open>onLocationSelect\<close>;
  \<open>Some (x, y, name)\<close> is the one call it makes. The first argument is
  \<^verbatim>\<open>svgRef.current\<close>, with its bounding rectangle when it is set.
\<close>

type_synonym selection = "real \<times> real \<times> string option"

definition handleChartClick ::
  "DOMRect option \<Rightarrow> VenueData \<Rightarrow> ViewportState \<Rightarrow> real \<Rightarrow> real \<Rightarrow> selection option" where
  "handleChartClick svg vd st clientX clientY =
     (if isDragging st then None
      else case svg of
        None \<Rightarrow> None
      | Some rect \<Rightarrow>
          (let (x, y) = click_to_logical rect (pan st) (zoom st) (clientX, clientY);
               clickedSection = find (section_hit x y) (sections vd)
           in Some (x, y, map_option name_section clickedSection)))"

subsection \<open>Events of the chart\<close>

datatype chart_event =
    ZoomInClick
  | ZoomOutClick
  | ResetClick
  | MouseDown nat real real
  | MouseMove real real
  | MouseUp
  | MouseLeave
  | ChartClick real real

text \<open>One event: the new view state and the selections passed to \<^verbatim>\<open>onLocationSelect\<close>.\<close>

fun chart_step ::
  "DOMRect option \<Rightarrow> VenueData \<Rightarrow> ViewportState \<Rightarrow> chart_event \<Rightarrow> ViewportState \<times> selection list" where
  "chart_step svg vd st ZoomInClick = (handleZoomIn st, [])"
| "chart_step svg vd st ZoomOutClick = (handleZoomOut st, [])"
| "chart_step svg vd st ResetClick = (handleReset st, [])"
| "chart_step svg vd st (MouseDown b cx cy) = (handleMouseDown st b cx cy, [])"
| "chart_step svg vd st (MouseMove cx cy) = (handleMouseMove st cx cy, [])"
| "chart_step svg vd st MouseUp = (handleMouseUp st, [])"
| "chart_step svg vd st MouseLeave = (handleMouseUp st, [])"
| "chart_step svg vd st (ChartClick cx cy) =
     (st, case handleChartClick svg vd st cx cy of None \<Rightarrow> [] | Some sel \<Rightarrow> [sel])"

fun run_chart ::
  "DOMRect option \<Rightarrow> VenueData \<Rightarrow> ViewportState \<Rightarrow> chart_event list \<Rightarrow> ViewportState \<times> selection list" where
  "run_chart svg vd st [] = (st, [])"
| "run_chart svg vd st (e # es) =
     (let (st1, out) = chart_step svg vd st e;
          (st2, outs) = run_chart svg vd st1 es
      in (st2, out @ outs))"

subsection \<open>The hit test as the specification words it\<close>

text \<open>
  The numeric literals of a path string, read the way path data writes a number: an
  optional sign, digits, and an optional fraction after a decimal point. A literal being
  read is kept as its sign, the digits before the point and, once a point was seen, the
  digits after it. Exponents are not read; the statements about this reading are about
  paths without the letters e and E.
\<close>

record literal =
  lit_negative :: bool
  lit_whole :: string
  lit_fraction :: "string option"

definition literal_value :: "literal \<Rightarrow> real" where
  "literal_value l =
     (if lit_negative l then - 1 else 1) *
       (Number (lit_whole l) +
        (case lit_fraction l of None \<Rightarrow> 0 | Some f \<Rightarrow> Number f / 10 ^ length f))"

text \<open>A pending literal counts when it has a digit; a lone sign or point is no number.\<close>

definition emit_literal :: "literal option \<Rightarrow> real list" where
  "emit_literal pending =
     (case pending of
        None \<Rightarrow> []
      | Some l \<Rightarrow>
          if lit_whole l = [] \<and> (case lit_fraction l of None \<Rightarrow> True | Some f \<Rightarrow> f = [])
          then [] else [literal_value l])"

fun literals_from :: "literal option \<Rightarrow> string \<Rightarrow> real list" where
  "literals_from pending [] = emit_literal pending"
| "literals_from pending (c # cs) =
     (if is_digit c then
        (case pending of
           None \<Rightarrow>
             literals_from
               (Some \<lparr>lit_negative = False, lit_whole = [c], lit_fraction = None\<rparr>) cs
         | Some l \<Rightarrow>
             (case lit_fraction l of
                None \<Rightarrow> literals_from (Some (l\<lparr>lit_whole := lit_whole l @ [c]\<rparr>)) cs
              | Some f \<Rightarrow> literals_from (Some (l\<lparr>lit_fraction := Some (f @ [c])\<rparr>)) cs))
      else if c = CHR ''.'' then
        (case pending of
           None \<Rightarrow>
             literals_from
               (Some \<lparr>lit_negative = False, lit_whole = [], lit_fraction = Some []\<rparr>) cs
         | Some l \<Rightarrow>
             (case lit_fraction l of
                None \<Rightarrow> literals_from (Some (l\<lparr>lit_fraction := Some []\<rparr>)) cs
              | Some f \<Rightarrow>
                  emit_literal pending @
                  literals_from
                    (Some \<lparr>lit_negative = False, lit_whole = [], lit_fraction = Some []\<rparr>) cs))
      else if c = CHR ''-'' \<or> c = CHR ''+'' then
        emit_literal pending @
        literals_from
          (Some \<lparr>lit_negative = (c = CHR ''-''), lit_whole = [], lit_fraction = None\<rparr>) cs
      else emit_literal pending @ literals_from None cs)"

definition numeric_literals :: "string \<Rightarrow> real list" where
  "numeric_literals p = literals_from None p"

text \<open>
  The first four coordinate pairs, and the axis-aligned bounding box of a list of points
  with inclusive bounds.
\<close>

definition first_four_pairs :: "real list \<Rightarrow> point list" where
  "first_four_pairs ns = [(ns ! 0, ns ! 1), (ns ! 2, ns ! 3), (ns ! 4, ns ! 5), (ns ! 6, ns ! 7)]"

definition in_bounding_box :: "point list \<Rightarrow> real \<Rightarrow> real \<Rightarrow> bool" where
  "in_bounding_box pts x y =
     (Min (set (map fst pts)) \<le> x \<and> x \<le> Max (set (map fst pts)) \<and>
      Min (set (map snd pts)) \<le> y \<and> y \<le> Max (set (map snd pts)))"

definition spec_section_hit :: "real \<Rightarrow> real \<Rightarrow> string \<Rightarrow> bool" where
  "spec_section_hit x y p =
     (length (numeric_literals p) \<ge> 8 \<and>
      in_bounding_box (first_four_pairs (numeric_literals p)) x y)"



section \<open>More JavaScript helpers\<close>

text \<open>\<^verbatim>\<open>Array.prototype.slice(a, b)\<close> for indices that are not negative.\<close>

definition slice :: "nat \<Rightarrow> nat \<Rightarrow> 'a list \<Rightarrow> 'a list" where
  "slice a b xs = drop a (take b xs)"

text \<open>\<^verbatim>\<open>v || 0\<close> on a number that may be \<^verbatim>\<open>null\<close>.\<close>

definition or_zero :: "int option \<Rightarrow> int" where
  "or_zero v = (case v of None \<Rightarrow> 0 | Some w \<Rightarrow> if w = 0 then 0 else w)"

text \<open>
  \<^verbatim>\<open>parseInt\<close> with no radix: leading white space is skipped, a sign is read, the prefix
  \<^verbatim>\<open>0x\<close> selects base 16, and the longest run of digits of the base is the value;
  \<open>None\<close> is NaN, the result when there is no digit.
\<close>

definition is_space :: "char \<Rightarrow> bool" where
  "is_space c = ((of_char c :: nat) \<in> set [32, 9, 10, 11, 12, 13])"

definition digit_in_radix :: "nat \<Rightarrow> char \<Rightarrow> nat option" where
  "digit_in_radix radix c =
     (let n = (of_char c :: nat);
          v = (if 48 \<le> n \<and> n \<le> 57 then Some (n - 48)
               else if 97 \<le> n \<and> n \<le> 122 then Some (n - 87)
               else if 65 \<le> n \<and> n \<le> 90 then Some (n - 55)
               else None)
      in case v of None \<Rightarrow> None | Some d \<Rightarrow> if d < radix then Some d else None)"

fun digits_prefix :: "nat \<Rightarrow> string \<Rightarrow> nat list" where
  "digits_prefix radix [] = []"
| "digits_prefix radix (c # cs) =
     (case digit_in_radix radix c of None \<Rightarrow> [] | Some d \<Rightarrow> d # digits_prefix radix cs)"

definition parseInt :: "string \<Rightarrow> int option" where
  "parseInt s =
     (let t = dropWhile is_space s;
          neg = (take 1 t = ''-'');
          u = (if take 1 t = ''-'' \<or> take 1 t = ''+'' then drop 1 t else t);
          hex = (take 2 u = ''0x'' \<or> take 2 u = ''0X'');
          radix = (if hex then 16 else 10);
          ds = digits_prefix radix (if hex then drop 2 u else u)
      in if ds = [] then None
         else Some ((if neg then - 1 else 1) * int (foldl (\<lambda>acc d. radix * acc + d) 0 ds)))"

section \<open>The store and the realtime channel\<close>

record User =
  id_user :: string
  email :: string
  displayName :: "string option"

record Room =
  id_room :: string
  name_room :: string
  venue_id_room :: string
  created_by :: string

record UserLocation =
  id_loc :: string
  room_id :: string
  user_id :: string
  user_name :: string
  user_avatar :: "string option"
  x_position :: real
  y_position :: real
  section_name :: "string option"
  seat_info :: "string option"

record MerchBooth =
  id_booth :: string
  venue_id_booth :: string
  name_booth :: string
  location_x :: real
  location_y :: real
  description_booth :: string
  created_at :: string

record LineReport =
  id_report :: string
  booth_id :: string
  user_id_report :: string
  line_length :: int
  wait_time_minutes :: "int option"
  reported_at :: string

datatype io_error = IOError

text \<open>
  Modelled from the spec: the store client \<^verbatim>\<open>blink.db\<close> is not part of the sources. By
  section 6 of the specification it offers \<^verbatim>\<open>list\<close> with a filter, an order and a limit,
  \<^verbatim>\<open>create\<close>, \<^verbatim>\<open>upsert\<close> and \<^verbatim>\<open>delete\<close>, rows being keyed by their id, and each
  operation fails with an I/O error when the store cannot be reached (\<open>online\<close> is false).
\<close>

record Store =
  online :: bool
  merch_booths :: "MerchBooth list"
  line_reports :: "LineReport list"
  user_locations :: "UserLocation list"

definition list_merch_booths :: "Store \<Rightarrow> string \<Rightarrow> io_error + MerchBooth list" where
  "list_merch_booths db venueId =
     (if online db then Inr (filter (\<lambda>b. venue_id_booth b = venueId) (merch_booths db))
      else Inl IOError)"

text \<open>Filter by booth, newest first by \<open>reported_at\<close>, at most \<open>limit\<close> rows.\<close>

definition list_line_reports :: "Store \<Rightarrow> string \<Rightarrow> nat \<Rightarrow> io_error + LineReport list" where
  "list_line_reports db boothId limit =
     (if online db
      then Inr (take limit
                  (rev (sort_key reported_at
                          (filter (\<lambda>r. booth_id r = boothId) (line_reports db)))))
      else Inl IOError)"

definition create_line_report :: "Store \<Rightarrow> LineReport \<Rightarrow> io_error + Store" where
  "create_line_report db r =
     (if online db then Inr (db\<lparr>line_reports := line_reports db @ [r]\<rparr>) else Inl IOError)"

text \<open>The rows after an upsert: the row with the same id is replaced, or the row is added.\<close>

definition rows_after_upsert :: "UserLocation list \<Rightarrow> UserLocation \<Rightarrow> UserLocation list" where
  "rows_after_upsert rows r =
     (if id_loc r \<in> set (map id_loc rows)
      then map (\<lambda>l. if id_loc l = id_loc r then r else l) rows
      else rows @ [r])"

definition upsert_user_location :: "Store \<Rightarrow> UserLocation \<Rightarrow> io_error + Store" where
  "upsert_user_location db r =
     (if online db
      then Inr (db\<lparr>user_locations := rows_after_upsert (user_locations db) r\<rparr>)
      else Inl IOError)"

text \<open>
  A realtime message: the tag \<^verbatim>\<open>message.type\<close> with the payload the handler reads
  for it.
\<close>

datatype message = LocationUpdate UserLocation | UserLeft string | OtherMessage

text \<open>
  Modelled from the spec: \<^verbatim>\<open>blink.realtime.publish\<close> is not part of the sources; the
  channel records what was published, and publishing fails when the channel is down.
\<close>

record Channel =
  channel_up :: bool
  published :: "(string \<times> message) list"

definition publish :: "Channel \<Rightarrow> string \<Rightarrow> message \<Rightarrow> io_error + Channel" where
  "publish ch channelName m =
     (if channel_up ch then Inr (ch\<lparr>published := published ch @ [(channelName, m)]\<rparr>)
      else Inl IOError)"

section \<open>MerchBoothTracker\<close>

datatype trend = Up | Down | Stable

record BoothStatus =
  booth :: MerchBooth
  avgLineLength :: int
  avgWaitTime :: int
  lastReported :: string
  reportCount :: nat
  trend :: trend

record TrackerState =
  boothStatuses :: "BoothStatus list"
  loading :: bool
  selectedBooth :: string
  reportLineLength :: string
  reportWaitTime :: string
  isReporting :: bool
  tracker_user :: "User option"

text \<open>Lines 91 to 95: the two means, before rounding.\<close>

definition mean_line_length :: "LineReport list \<Rightarrow> real" where
  "mean_line_length recentReports =
     real_of_int (foldl (\<lambda>sum report. sum + line_length report) 0 recentReports)
       / real (length recentReports)"

definition mean_wait_time :: "LineReport list \<Rightarrow> real" where
  "mean_wait_time recentReports =
     (let reportsWithWaitTime = filter (\<lambda>r. wait_time_minutes r \<noteq> None) recentReports
      in if length reportsWithWaitTime > 0
         then real_of_int (foldl (\<lambda>sum report. sum + or_zero (wait_time_minutes report)) 0
                             reportsWithWaitTime)
                / real (length reportsWithWaitTime)
         else 0)"

text \<open>Lines 98 to 104.\<close>

definition compute_trend :: "LineReport list \<Rightarrow> trend" where
  "compute_trend recentReports =
     (if length recentReports \<ge> 6
      then (let recent3 = real_of_int (foldl (\<lambda>sum r. sum + line_length r) 0
                                         (slice 0 3 recentReports)) / 3;
                previous3 = real_of_int (foldl (\<lambda>sum r. sum + line_length r) 0
                                           (slice 3 6 recentReports)) / 3
            in if recent3 > previous3 + 0.3 then Up
               else if recent3 < previous3 - 0.3 then Down
               else Stable)
      else Stable)"

text \<open>The body of the loop over the booths, lines 90 to 124.\<close>

definition booth_status :: "MerchBooth \<Rightarrow> LineReport list \<Rightarrow> BoothStatus" where
  "booth_status b recentReports =
     (if length recentReports > 0
      then \<lparr>booth = b,
            avgLineLength = Math_round (mean_line_length recentReports),
            avgWaitTime = Math_round (mean_wait_time recentReports),
            lastReported = reported_at (recentReports ! 0),
            reportCount = length recentReports,
            trend = compute_trend recentReports\<rparr>
      else \<lparr>booth = b, avgLineLength = 0, avgWaitTime = 0, lastReported = [],
            reportCount = 0, trend = Stable\<rparr>)"

fun collect_statuses :: "Store \<Rightarrow> MerchBooth list \<Rightarrow> io_error + BoothStatus list" where
  "collect_statuses db [] = Inr []"
| "collect_statuses db (b # bs) =
     (case list_line_reports db (id_booth b) 20 of
        Inl e \<Rightarrow> Inl e
      | Inr recentReports \<Rightarrow>
          (case collect_statuses db bs of
             Inl e \<Rightarrow> Inl e
           | Inr rest \<Rightarrow> Inr (booth_status b recentReports # rest)))"

text \<open>
  \<open>loadBoothStatuses\<close>: the \<^verbatim>\<open>catch\<close> branch only logs, the \<^verbatim>\<open>finally\<close> branch clears
  \<open>loading\<close>. \<^verbatim>\<open>Array.prototype.sort\<close> is stable, as \<open>sort_key\<close> is.
\<close>

definition loadBoothStatuses :: "string \<Rightarrow> Store \<Rightarrow> TrackerState \<Rightarrow> TrackerState" where
  "loadBoothStatuses venueId db st =
     (case (case list_merch_booths db venueId of
              Inl e \<Rightarrow> Inl e
            | Inr booths \<Rightarrow> collect_statuses db booths) of
        Inr statuses \<Rightarrow> st\<lparr>boothStatuses := sort_key avgLineLength statuses, loading := False\<rparr>
      | Inl e \<Rightarrow> st\<lparr>loading := False\<rparr>)"

text \<open>
  What \<open>submitReport\<close> reads from the clock and the random generator: the decimal
  digits of \<^verbatim>\<open>Date.now()\<close> as the template literal prints them, the nine characters
  taken from \<^verbatim>\<open>Math.random().toString(36)\<close>, and the ISO string of the current time.
\<close>

record Clock =
  Date_now :: string
  random_suffix :: string
  now_iso :: string

text \<open>
  \<open>submitReport\<close> gives the new component state and the new store. The report carries
  integers here, so the result is \<open>None\<close> when \<^verbatim>\<open>parseInt\<close> yields NaN for a form field;
  the form's selects only offer strings of digits.
\<close>

definition submitReport ::
  "string \<Rightarrow> Clock \<Rightarrow> Store \<Rightarrow> TrackerState \<Rightarrow> (TrackerState \<times> Store) option" where
  "submitReport venueId clock db st =
     (case tracker_user st of
        None \<Rightarrow> Some (st, db)
      | Some u \<Rightarrow>
          if \<not> truthy (selectedBooth st) \<or> \<not> truthy (reportLineLength st) then Some (st, db)
          else
            (case (parseInt (reportLineLength st),
                   if truthy (reportWaitTime st)
                   then map_option Some (parseInt (reportWaitTime st))
                   else Some None) of
               (Some lineLength, Some waitTime) \<Rightarrow>
                 (case create_line_report db
                         \<lparr>id_report = ''report_'' @ Date_now clock @ ''_''
                                        @ random_suffix clock,
                          booth_id = selectedBooth st,
                          user_id_report = id_user u,
                          line_length = lineLength,
                          wait_time_minutes = waitTime,
                          reported_at = now_iso clock\<rparr> of
                    Inr db1 \<Rightarrow>
                      Some ((loadBoothStatuses venueId db1 (st\<lparr>isReporting := True\<rparr>))
                              \<lparr>selectedBooth := [], reportLineLength := [],
                               reportWaitTime := [], isReporting := False\<rparr>, db1)
                  | Inl e \<Rightarrow> Some (st\<lparr>isReporting := False\<rparr>, db))
             | _ \<Rightarrow> None))"

text \<open>The submit button is disabled on the same fields, and while a report is sent.\<close>

definition submit_disabled :: "TrackerState \<Rightarrow> bool" where
  "submit_disabled st =
     (\<not> truthy (selectedBooth st) \<or> \<not> truthy (reportLineLength st) \<or> isReporting st)"

section \<open>App.tsx\<close>

record AppState =
  app_user :: "User option"
  currentRoom :: "Room option"
  userLocations :: "UserLocation list"
  myLocation :: "point option"

text \<open>The handler subscribed to the room's channel, lines 67 to 78.\<close>

fun on_message :: "UserLocation list \<Rightarrow> message \<Rightarrow> UserLocation list" where
  "on_message prev (LocationUpdate locationData) =
     filter (\<lambda>loc. user_id loc \<noteq> user_id locationData) prev @ [locationData]"
| "on_message prev (UserLeft userId) = filter (\<lambda>loc. user_id loc \<noteq> userId) prev"
| "on_message prev OtherMessage = prev"

definition receive :: "AppState \<Rightarrow> message \<Rightarrow> AppState" where
  "receive st m = st\<lparr>userLocations := on_message (userLocations st) m\<rparr>"

text \<open>The record built at lines 86 to 96.\<close>

definition locationData_of :: "User \<Rightarrow> Room \<Rightarrow> real \<Rightarrow> real \<Rightarrow> string option \<Rightarrow> UserLocation" where
  "locationData_of u room x y sectionName =
     \<lparr>id_loc = id_user u @ ''-'' @ id_room room,
      room_id = id_room room,
      user_id = id_user u,
      user_name = (case displayName u of
                     None \<Rightarrow> email u
                   | Some n \<Rightarrow> if truthy n then n else email u),
      user_avatar = None,
      x_position = x,
      y_position = y,
      section_name = sectionName,
      seat_info = None\<rparr>"

text \<open>
  \<open>handleLocationUpdate\<close>: the store write, the local position, the broadcast. A failure
  of the write or of the broadcast ends the action where it is; the toasts are not
  modelled.
\<close>

definition handleLocationUpdate ::
  "Store \<Rightarrow> Channel \<Rightarrow> AppState \<Rightarrow> real \<Rightarrow> real \<Rightarrow> string option \<Rightarrow> AppState \<times> Store \<times> Channel" where
  "handleLocationUpdate db ch st x y sectionName =
     (case (app_user st, currentRoom st) of
        (Some u, Some room) \<Rightarrow>
          (let locationData = locationData_of u room x y sectionName
           in case upsert_user_location db locationData of
                Inl e \<Rightarrow> (st, db, ch)
              | Inr db1 \<Rightarrow>
                  (let st1 = st\<lparr>myLocation := Some (x, y)\<rparr>
                   in case publish ch (''room-'' @ id_room room) (LocationUpdate locationData) of
                        Inl e \<Rightarrow> (st1, db1, ch)
                      | Inr ch1 \<Rightarrow> (st1, db1, ch1)))
      | _ \<Rightarrow> (st, db, ch))"

section \<open>Fixtures for the worked examples\<close>

definition booth_b1 :: MerchBooth where
  "booth_b1 = \<lparr>id_booth = ''b1'', venue_id_booth = ''v1'', name_booth = ''Main merch'',
               location_x = 120, location_y = 80, description_booth = ''By gate A'',
               created_at = ''2024-01-01''\<rparr>"

definition report_of :: "string \<Rightarrow> int \<Rightarrow> int option \<Rightarrow> string \<Rightarrow> LineReport" where
  "report_of rid len wait stamp =
     \<lparr>id_report = rid, booth_id = ''b1'', user_id_report = ''u1'', line_length = len,
      wait_time_minutes = wait, reported_at = stamp\<rparr>"

definition store_of :: "LineReport list \<Rightarrow> Store" where
  "store_of rs = \<lparr>online = True, merch_booths = [booth_b1], line_reports = rs,
                  user_locations = []\<rparr>"

definition user_u1 :: User where
  "user_u1 = \<lparr>id_user = ''u1'', email = ''u1@example.org'', displayName = Some ''Ada Lovelace''\<rparr>"

definition room_R1 :: Room where
  "room_R1 = \<lparr>id_room = ''R1'', name_room = ''Row 5'', venue_id_room = ''v1'',
               created_by = ''u1''\<rparr>"

definition form_of :: "string \<Rightarrow> string \<Rightarrow> TrackerState" where
  "form_of len wait =
     \<lparr>boothStatuses = [], loading = False, selectedBooth = ''b1'', reportLineLength = len,
      reportWaitTime = wait, isReporting = False, tracker_user = Some user_u1\<rparr>"

definition clock_0 :: Clock where
  "clock_0 = \<lparr>Date_now = ''1700000000000'', random_suffix = ''k3j9x0q2a'',
               now_iso = ''2024-01-05T10:00:00.000Z''\<rparr>"

definition app_0 :: AppState where
  "app_0 = \<lparr>app_user = Some user_u1, currentRoom = Some room_R1, userLocations = [],
             myLocation = None\<rparr>"

definition channel_0 :: Channel where
  "channel_0 = \<lparr>channel_up = True, published = []\<rparr>"

section \<open>Properties of the seating chart\<close>

subsection \<open>Helper facts\<close>

lemma includes_single: "str_includes s [c] = (c \<in> set s)"
  by (induction s) auto












text \<open>
  Signs and decimal points are not read by the expression \<^verbatim>\<open>\d+\<close>: for the square with
  corners (-10,-10) and (0,0) the literals are the signed numbers, while the source tests
  the box from (0,0) to (10,10). The statements on the hit test leave such paths out.
\<close>

lemma signed_quad_numbers:
  "numeric_literals ''M-10,-10 L0,-10 L0,0 L-10,0 Z'' = [- 10, - 10, 0, - 10, 0, 0, - 10, 0]"
  by (simp add: numeric_literals_def is_digit_def emit_literal_def literal_value_def
      Number_def digit_val_def)

lemma signed_quad_read_unsigned:
  "spec_section_hit (- 5) (- 5) ''M-10,-10 L0,-10 L0,0 L-10,0 Z'' \<and>
   \<not> section_hit (- 5) (- 5)
        \<lparr>id_section = ''s1'', name_section = ''Pit'', color = ''red'',
          path = ''M-10,-10 L0,-10 L0,0 L-10,0 Z''\<rparr> \<and>
   section_hit 5 5
        \<lparr>id_section = ''s1'', name_section = ''Pit'', color = ''red'',
          path = ''M-10,-10 L0,-10 L0,0 L-10,0 Z''\<rparr>"
  by (simp add: spec_section_hit_def signed_quad_numbers in_bounding_box_def first_four_pairs_def
      section_hit_def includes_single match_digits_def is_digit_def Number_def digit_val_def
      Math_min4_def Math_max4_def)


lemma chart_step_zoom_range:
  "1 / 2 \<le> zoom st \<Longrightarrow> zoom st \<le> 3 \<Longrightarrow>
   1 / 2 \<le> zoom (fst (chart_step svg vd st e)) \<and> zoom (fst (chart_step svg vd st e)) \<le> 3"
  by (cases e)
     (auto simp: handleZoomIn_def handleZoomOut_def handleReset_def handleMouseDown_def
        handleMouseMove_def handleMouseUp_def)

lemma run_chart_zoom_range:
  "1 / 2 \<le> zoom st \<Longrightarrow> zoom st \<le> 3 \<Longrightarrow>
   1 / 2 \<le> zoom (fst (run_chart svg vd st es)) \<and> zoom (fst (run_chart svg vd st es)) \<le> 3"
proof (induction es arbitrary: st)
  case Nil
  then show ?case by simp
next
  case (Cons e es)
  have "1 / 2 \<le> zoom (fst (chart_step svg vd st e)) \<and> zoom (fst (chart_step svg vd st e)) \<le> 3"
    using Cons.prems by (rule chart_step_zoom_range)
  then have "1 / 2 \<le> zoom (fst (run_chart svg vd (fst (chart_step svg vd st e)) es)) \<and>
     zoom (fst (run_chart svg vd (fst (chart_step svg vd st e)) es)) \<le> 3"
    using Cons.IH by blast
  then show ?case by (simp add: split_beta Let_def)
qed

text \<open>While the button is held the click handler returns at once.\<close>

lemma click_while_dragging_ignored:
  "isDragging st \<Longrightarrow> chart_step svg vd st (ChartClick cx cy) = (st, [])"
  by (simp add: handleChartClick_def)

text \<open>Press, release, click with no drag before: exactly one selection.\<close>

lemma plain_click_selects_once:
  "length (snd (run_chart (Some rect) vd st [MouseDown 0 cx cy, MouseUp, ChartClick cx cy])) = 1"
  by (simp add: handleMouseDown_def handleMouseUp_def handleChartClick_def split_beta Let_def)

subsection \<open>Section hit test\<close>




subsection \<open>Coordinate inversion\<close>

text \<open>
  C4. The \<^verbatim>\<open>svg\<close> element that carries the transform is the element whose bounding
  rectangle the click handler reads (the ref at line 170, the style at lines 178 to 180),
  so that rectangle has already moved with the pan. With the element laid out at (0,0),
  500 by 500 pixels, zoom 1 and pan (50,30), the chart point (10,10) is drawn at the screen
  point (60,40) and the corner of the bounding rectangle is (50,30). The handler subtracts
  the pan a second time: it maps the click at (60,40) to (-40,-20), not back to (10,10).
\<close>

theorem click_after_pan_is_offset:
  "handleChartClick (Some \<lparr>rect_left = 50, rect_top = 30\<rparr>) \<lparr>sections = []\<rparr>
     (initial_viewport\<lparr>pan := (50, 30)\<rparr>) 60 40 = Some (- 40, - 20, None)"
  by (simp add: initial_viewport_def handleChartClick_def click_to_logical_def)

subsection \<open>Zoom clamp\<close>

text \<open>
  C5. From a zoom factor in [0.5, 3], any sequence of chart events (zoom in, zoom
  out, reset and the mouse events) leaves the zoom factor in [0.5, 3]. The zoom starts
  at 1; zoom in multiplies by 1.2 and caps at 3, zoom out divides by 1.2 and stops at 0.5;
  reset puts the zoom at 1 and the pan at (0,0).
\<close>

theorem zoom_stays_clamped:
  "(1 / 2 \<le> zoom st \<and> zoom st \<le> 3 \<longrightarrow>
      1 / 2 \<le> zoom (fst (run_chart svg vd st es)) \<and> zoom (fst (run_chart svg vd st es)) \<le> 3) \<and>
   zoom initial_viewport = 1 \<and>
   zoom (handleZoomIn st) = min (zoom st * 1.2) 3 \<and>
   zoom (handleZoomOut st) = max (zoom st / 1.2) (1 / 2) \<and>
   zoom (handleReset st) = 1 \<and> pan (handleReset st) = (0, 0)"
  using run_chart_zoom_range [of st svg vd es]
  by (simp add: initial_viewport_def handleReset_def handleZoomIn_def handleZoomOut_def)


theorem zoom_stays_clamped_witness:
  "1 / 2 \<le> zoom initial_viewport \<and> zoom initial_viewport \<le> 3 \<and>
   1 / 2 \<le> zoom (fst (run_chart None \<lparr>sections = []\<rparr> initial_viewport
     [ZoomInClick, ZoomInClick, ZoomInClick, ZoomInClick, ZoomInClick, ZoomInClick, ZoomInClick,
      ZoomOutClick, ResetClick, ZoomOutClick, ZoomOutClick, ZoomOutClick, ZoomOutClick])) \<and>
   zoom (fst (run_chart None \<lparr>sections = []\<rparr> initial_viewport
     [ZoomInClick, ZoomInClick, ZoomInClick, ZoomInClick, ZoomInClick, ZoomInClick, ZoomInClick,
      ZoomOutClick, ResetClick, ZoomOutClick, ZoomOutClick, ZoomOutClick, ZoomOutClick])) \<le> 3 \<and>
   zoom (fst (run_chart None \<lparr>sections = []\<rparr> initial_viewport
     [ZoomInClick, ZoomInClick, ZoomInClick, ZoomInClick, ZoomInClick, ZoomInClick, ZoomInClick,
      ZoomOutClick, ResetClick, ZoomOutClick, ZoomOutClick, ZoomOutClick, ZoomOutClick])) = 1 / 2"
proof -
  have lo: "1 / 2 \<le> zoom initial_viewport" and hi: "zoom initial_viewport \<le> 3"
    by (simp_all add: initial_viewport_def)
  have final: "zoom (fst (run_chart None \<lparr>sections = []\<rparr> initial_viewport
     [ZoomInClick, ZoomInClick, ZoomInClick, ZoomInClick, ZoomInClick, ZoomInClick, ZoomInClick,
      ZoomOutClick, ResetClick, ZoomOutClick, ZoomOutClick, ZoomOutClick, ZoomOutClick])) = 1 / 2"
    by code_simp
  from zoom_stays_clamped [THEN conjunct1, rule_format, OF conjI [OF lo hi], of None
      "\<lparr>sections = []\<rparr>" "[ZoomInClick, ZoomInClick, ZoomInClick, ZoomInClick, ZoomInClick, ZoomInClick, ZoomInClick,
      ZoomOutClick, ResetClick, ZoomOutClick, ZoomOutClick, ZoomOutClick, ZoomOutClick]"] lo hi final
  show ?thesis by blast
qed

subsection \<open>Click after a drag\<close>

text \<open>
  C6. The browser delivers the click of a gesture after its mouse-up. A press at
  (10,10), a move to (60,40), the release and the click that follows: the release has
  already cleared \<open>isDragging\<close>, so the click handler does not return early and the
  callback fires once, at the chart point (10,10), although the gesture was a pan.
\<close>

theorem click_after_drag_selects:
  "run_chart (Some \<lparr>rect_left = 0, rect_top = 0\<rparr>) \<lparr>sections = []\<rparr> initial_viewport
     [MouseDown 0 10 10, MouseMove 60 40, MouseUp, ChartClick 60 40] =
   (\<lparr>zoom = 1, pan = (50, 30), isDragging = False, dragStart = (10, 10)\<rparr>, [(10, 10, None)])"
  by (simp add: initial_viewport_def handleMouseDown_def handleMouseMove_def handleMouseUp_def
      handleChartClick_def click_to_logical_def)

subsection \<open>Unparsable layout\<close>

text \<open>
  C9. When the stored seating-chart string of a venue does not parse, the section
  list is empty, and a click handled while no drag is in progress still fires the callback
  with the chart coordinates and no section name.
\<close>

theorem parse_failure_degrades:
  assumes "JSON_parse (seating_chart_data venue) = None"
  shows "sections (venueData JSON_parse venue) = [] \<and>
         (\<not> isDragging st \<longrightarrow>
            handleChartClick (Some rect) (venueData JSON_parse venue) st cx cy =
              Some (fst (click_to_logical rect (pan st) (zoom st) (cx, cy)),
                    snd (click_to_logical rect (pan st) (zoom st) (cx, cy)), None))"
  using assms by (simp add: venueData_def handleChartClick_def split_beta)


theorem parse_failure_degrades_witness:
  "(\<lambda>s. if s = ''ok'' then Some \<lparr>sections = []\<rparr> else None)
      (seating_chart_data \<lparr>id_venue = ''v1'', name_venue = ''Arena'', description_venue = ''d'',
                           seating_chart_data = ''{oops''\<rparr>) = None \<and>
   \<not> isDragging initial_viewport \<and>
   handleChartClick (Some \<lparr>rect_left = 10, rect_top = 20\<rparr>)
     (venueData (\<lambda>s. if s = ''ok'' then Some \<lparr>sections = []\<rparr> else None)
        \<lparr>id_venue = ''v1'', name_venue = ''Arena'', description_venue = ''d'',
          seating_chart_data = ''{oops''\<rparr>)
     initial_viewport 110 220 = Some (100, 200, None)"
  using parse_failure_degrades [of "\<lambda>s. if s = ''ok'' then Some \<lparr>sections = []\<rparr> else None"
      "\<lparr>id_venue = ''v1'', name_venue = ''Arena'', description_venue = ''d'',
          seating_chart_data = ''{oops''\<rparr>" initial_viewport "\<lparr>rect_left = 10, rect_top = 20\<rparr>" 110 220]
  by (simp add: initial_viewport_def click_to_logical_def)

section \<open>Properties of the booth tracker\<close>

subsection \<open>Helper facts\<close>

lemma foldl_add_sum_list:
  "foldl (\<lambda>sum r. sum + f r) a xs = a + sum_list (map f xs)" for a :: int
  by (induction xs arbitrary: a) simp_all

lemma Math_round_round: "Math_round v = round v"
  by (simp add: Math_round_def round_def)

lemma or_zero_Some: "or_zero (Some w) = w"
  by (simp add: or_zero_def)

lemma present_waits_sum:
  "sum_list (map (\<lambda>r. or_zero (wait_time_minutes r)) (filter (\<lambda>r. wait_time_minutes r \<noteq> None) rs))
     = sum_list (List.map_filter wait_time_minutes rs)"
  by (induction rs) (auto simp: List.map_filter_simps or_zero_Some)

lemma present_waits_length:
  "length (filter (\<lambda>r. wait_time_minutes r \<noteq> None) rs) = length (List.map_filter wait_time_minutes rs)"
  by (induction rs) (auto simp: List.map_filter_simps)

lemma mean_line_length_eq:
  "mean_line_length rs = real_of_int (sum_list (map line_length rs)) / real (length rs)"
  by (simp add: mean_line_length_def foldl_add_sum_list)

lemma mean_wait_time_eq:
  "mean_wait_time rs =
     (if List.map_filter wait_time_minutes rs = [] then 0
      else real_of_int (sum_list (List.map_filter wait_time_minutes rs))
             / real (length (List.map_filter wait_time_minutes rs)))"
  unfolding mean_wait_time_def Let_def foldl_add_sum_list present_waits_sum present_waits_length
  by simp

lemma take_six:
  "6 \<le> length rs \<Longrightarrow> take 6 rs = [rs ! 0, rs ! 1, rs ! 2, rs ! 3, rs ! 4, rs ! 5]"
  by (auto simp: eval_nat_numeral Suc_le_length_iff)

lemma take_three:
  "3 \<le> length rs \<Longrightarrow> take 3 rs = [rs ! 0, rs ! 1, rs ! 2]"
  by (auto simp: eval_nat_numeral Suc_le_length_iff)

lemma compute_trend_eq:
  "compute_trend rs =
     (if length rs \<ge> 6
      then (if real_of_int (line_length (rs ! 0) + line_length (rs ! 1) + line_length (rs ! 2)) / 3
                 > real_of_int (line_length (rs ! 3) + line_length (rs ! 4) + line_length (rs ! 5)) / 3 + 0.3
            then Up
            else if real_of_int (line_length (rs ! 0) + line_length (rs ! 1) + line_length (rs ! 2)) / 3
                 < real_of_int (line_length (rs ! 3) + line_length (rs ! 4) + line_length (rs ! 5)) / 3 - 0.3
            then Down else Stable)
      else Stable)"
proof (cases "length rs \<ge> 6")
  case False
  then show ?thesis by (simp add: compute_trend_def)
next
  case True
  then have three: "3 \<le> length rs" by simp
  have s1: "slice 0 3 rs = [rs ! 0, rs ! 1, rs ! 2]"
    by (simp add: slice_def take_three [OF three])
  have s2: "slice 3 6 rs = [rs ! 3, rs ! 4, rs ! 5]"
    by (simp add: slice_def take_six [OF True])
  show ?thesis
    unfolding compute_trend_def s1 s2 Let_def using True by simp
qed

lemma sorted_le_last: "sorted xs \<Longrightarrow> x \<in> set xs \<Longrightarrow> x \<le> last xs" for xs :: "'a::linorder list"
  by (induction xs) auto

lemma sorted_desc_hd:
  assumes "rs = take n (rev (sort_key k xs))" "rs \<noteq> []" "x \<in> set xs"
  shows "k x \<le> k (hd rs)"
proof -
  let ?s = "sort_key k xs"
  have ne: "?s \<noteq> []" using assms by auto
  have "hd rs = last ?s"
    using assms ne by (cases n) (simp_all add: hd_rev)
  moreover have "k x \<le> last (map k ?s)"
    using assms(3) by (intro sorted_le_last) simp_all
  ultimately show ?thesis using ne by (simp add: last_map)
qed

lemma trend_booth_status: "trend (booth_status b rs) = compute_trend rs"
  by (simp add: booth_status_def compute_trend_def)

subsection \<open>Trend\<close>

text \<open>
  C2. For every list of fetched reports, newest first: with fewer than six reports
  the trend is stable; with six or more, \<open>recent3\<close> is the mean line length of the
  reports ranked 1 to 3 and \<open>previous3\<close> that of the reports ranked 4 to 6, and the trend
  is up when \<open>recent3 > previous3 + 0.3\<close>, down when \<open>recent3 < previous3 - 0.3\<close>, and
  stable otherwise. For the line lengths 3, 3, 3, 0, 0, 0 the trend is up.
\<close>

theorem trend_computation:
  fixes rs :: "LineReport list" and b :: MerchBooth
  defines "recent3 \<equiv>
      real_of_int (line_length (rs ! 0) + line_length (rs ! 1) + line_length (rs ! 2)) / 3"
    and "previous3 \<equiv>
      real_of_int (line_length (rs ! 3) + line_length (rs ! 4) + line_length (rs ! 5)) / 3"
  shows "(length rs < 6 \<longrightarrow> trend (booth_status b rs) = Stable) \<and>
         (length rs \<ge> 6 \<longrightarrow>
            trend (booth_status b rs) =
              (if recent3 > previous3 + 0.3 then Up
               else if recent3 < previous3 - 0.3 then Down
               else Stable)) \<and>
         (map line_length rs = [3, 3, 3, 0, 0, 0] \<longrightarrow> trend (booth_status b rs) = Up)"
proof (intro conjI impI)
  assume "length rs < 6"
  then show "trend (booth_status b rs) = Stable"
    by (simp add: trend_booth_status compute_trend_eq)
next
  assume "length rs \<ge> 6"
  then show "trend (booth_status b rs) =
              (if recent3 > previous3 + 0.3 then Up
               else if recent3 < previous3 - 0.3 then Down
               else Stable)"
    unfolding trend_booth_status compute_trend_eq recent3_def previous3_def by simp
next
  assume m: "map line_length rs = [3, 3, 3, 0, 0, 0]"
  have "length (map line_length rs) = length [3, 3, 3, 0, 0, 0 :: int]"
    by (simp only: m)
  then have len: "length rs = 6"
    by simp
  have "line_length (rs ! i) = [3, 3, 3, 0, 0, 0] ! i" if "i < 6" for i
  proof -
    have "map line_length rs ! i = [3, 3, 3, 0, 0, 0] ! i"
      by (simp only: m)
    then show ?thesis
      using len that by simp
  qed
  from this [of 0] this [of 1] this [of 2] this [of 3] this [of 4] this [of 5]
  show "trend (booth_status b rs) = Up"
    by (simp add: trend_booth_status compute_trend_eq len)
qed

theorem trend_computation_witness:
  "length (map (\<lambda>n. report_of ''r'' n None ''t'') [3, 3, 3, 0, 0, 0]) \<ge> 6 \<and>
   map line_length (map (\<lambda>n. report_of ''r'' n None ''t'') [3, 3, 3, 0, 0, 0]) = [3, 3, 3, 0, 0, 0] \<and>
   trend (booth_status booth_b1 (map (\<lambda>n. report_of ''r'' n None ''t'') [3, 3, 3, 0, 0, 0])) = Up \<and>
   length (map (\<lambda>n. report_of ''r'' n None ''t'') [0, 0, 0, 3, 3]) < 6 \<and>
   trend (booth_status booth_b1 (map (\<lambda>n. report_of ''r'' n None ''t'') [0, 0, 0, 3, 3])) = Stable"
  using trend_computation [of "map (\<lambda>n. report_of ''r'' n None ''t'') [3, 3, 3, 0, 0, 0]" booth_b1]
    trend_computation [of "map (\<lambda>n. report_of ''r'' n None ''t'') [0, 0, 0, 3, 3]" booth_b1]
  by (simp add: report_of_def)

lemma booth_status_of_fetched:
  assumes fetched: "list_line_reports db (id_booth b) 20 = Inr rs"
  shows "(rs = [] \<longrightarrow>
            booth_status b rs =
              \<lparr>booth = b, avgLineLength = 0, avgWaitTime = 0, lastReported = [],
               reportCount = 0, trend = Stable\<rparr>) \<and>
         (rs \<noteq> [] \<longrightarrow>
            avgLineLength (booth_status b rs) =
              round (real_of_int (sum_list (map line_length rs)) / real (length rs)) \<and>
            avgWaitTime (booth_status b rs) =
              (if List.map_filter wait_time_minutes rs = [] then 0
               else round (real_of_int (sum_list (List.map_filter wait_time_minutes rs))
                             / real (length (List.map_filter wait_time_minutes rs)))) \<and>
            lastReported (booth_status b rs) = reported_at (hd rs) \<and>
            (\<forall>r \<in> set (line_reports db).
               booth_id r = id_booth b \<longrightarrow> reported_at r \<le> lastReported (booth_status b rs))) \<and>
         reportCount (booth_status b rs) = length rs \<and>
         length rs \<le> 20"
proof -
  have rs: "rs = take 20 (rev (sort_key reported_at
                  (filter (\<lambda>r. booth_id r = id_booth b) (line_reports db))))"
    using fetched by (simp add: list_line_reports_def split: if_splits)
  have empty: "rs = [] \<longrightarrow>
            booth_status b rs =
              \<lparr>booth = b, avgLineLength = 0, avgWaitTime = 0, lastReported = [],
               reportCount = 0, trend = Stable\<rparr>"
    by (simp add: booth_status_def)
  have count: "reportCount (booth_status b rs) = length rs"
    by (simp add: booth_status_def)
  have cap: "length rs \<le> 20"
    by (subst rs) simp
  have nonempty: "avgLineLength (booth_status b rs) =
              round (real_of_int (sum_list (map line_length rs)) / real (length rs)) \<and>
            avgWaitTime (booth_status b rs) =
              (if List.map_filter wait_time_minutes rs = [] then 0
               else round (real_of_int (sum_list (List.map_filter wait_time_minutes rs))
                             / real (length (List.map_filter wait_time_minutes rs)))) \<and>
            lastReported (booth_status b rs) = reported_at (hd rs) \<and>
            (\<forall>r \<in> set (line_reports db).
               booth_id r = id_booth b \<longrightarrow> reported_at r \<le> lastReported (booth_status b rs))"
    if ne: "rs \<noteq> []"
  proof (intro conjI ballI impI)
    show "avgLineLength (booth_status b rs) =
              round (real_of_int (sum_list (map line_length rs)) / real (length rs))"
      using ne by (simp add: booth_status_def Math_round_round mean_line_length_eq)
    show "avgWaitTime (booth_status b rs) =
              (if List.map_filter wait_time_minutes rs = [] then 0
               else round (real_of_int (sum_list (List.map_filter wait_time_minutes rs))
                             / real (length (List.map_filter wait_time_minutes rs))))"
      using ne by (simp add: booth_status_def Math_round_round mean_wait_time_eq)
    show last: "lastReported (booth_status b rs) = reported_at (hd rs)"
      using ne by (simp add: booth_status_def hd_conv_nth)
    fix r
    assume "r \<in> set (line_reports db)" "booth_id r = id_booth b"
    then have "r \<in> set (filter (\<lambda>r. booth_id r = id_booth b) (line_reports db))"
      by simp
    from sorted_desc_hd [OF rs ne this]
    show "reported_at r \<le> lastReported (booth_status b rs)"
      by (simp add: last)
  qed
  from empty nonempty count cap show ?thesis by blast
qed

lemma booth_of_booth_status: "booth (booth_status b rs) = b"
  by (simp add: booth_status_def)

lemma collect_statuses_online:
  "online db \<Longrightarrow>
   collect_statuses db bs =
     Inr (map (\<lambda>b. booth_status b
                 (take 20 (rev (sort_key reported_at
                    (filter (\<lambda>r. booth_id r = id_booth b) (line_reports db)))))) bs)"
  by (induction bs) (simp_all add: list_line_reports_def)

lemma loadBoothStatuses_online:
  "online db \<Longrightarrow>
   boothStatuses (loadBoothStatuses venueId db st) =
     sort_key avgLineLength
       (map (\<lambda>b. booth_status b
                 (take 20 (rev (sort_key reported_at
                    (filter (\<lambda>r. booth_id r = id_booth b) (line_reports db))))))
          (filter (\<lambda>b. venue_id_booth b = venueId) (merch_booths db)))"
  by (simp add: loadBoothStatuses_def list_merch_booths_def collect_statuses_online)

subsection \<open>Status of one booth\<close>

text \<open>
  C3. When the store answers, \<open>loadBoothStatuses\<close> gives every booth of the venue
  a status, and every status it gives belongs to a booth of the venue and is computed from
  the reports the store returns for that booth with limit 20, newest first: with no report
  the status is all zeros, an empty timestamp and a stable trend; otherwise the average
  line length is the rounded mean of the line lengths of all fetched reports, the average
  wait time is the rounded mean of the wait times that are present (0 when none is), and
  the timestamp is that of the first fetched report, which no report of the booth in the
  store is newer than. The report count is the number of fetched reports, which is the
  number of reports of the booth in the store capped at 20.
\<close>

theorem booth_aggregation:
  assumes on: "online db"
  shows "(\<forall>b \<in> set (merch_booths db).
            venue_id_booth b = venueId \<longrightarrow>
            (\<exists>s \<in> set (boothStatuses (loadBoothStatuses venueId db st)). booth s = b)) \<and>
         (\<forall>s \<in> set (boothStatuses (loadBoothStatuses venueId db st)).
            booth s \<in> set (merch_booths db) \<and> venue_id_booth (booth s) = venueId \<and>
            (\<exists>rs. list_line_reports db (id_booth (booth s)) 20 = Inr rs \<and>
               (rs = [] \<longrightarrow>
                  s = \<lparr>booth = booth s, avgLineLength = 0, avgWaitTime = 0, lastReported = [],
                       reportCount = 0, trend = Stable\<rparr>) \<and>
               (rs \<noteq> [] \<longrightarrow>
                  avgLineLength s =
                    round (real_of_int (sum_list (map line_length rs)) / real (length rs)) \<and>
                  avgWaitTime s =
                    (if List.map_filter wait_time_minutes rs = [] then 0
                     else round (real_of_int (sum_list (List.map_filter wait_time_minutes rs))
                                   / real (length (List.map_filter wait_time_minutes rs)))) \<and>
                  lastReported s = reported_at (hd rs) \<and>
                  (\<forall>r \<in> set (line_reports db).
                     booth_id r = id_booth (booth s) \<longrightarrow> reported_at r \<le> lastReported s)) \<and>
               reportCount s = length rs) \<and>
            reportCount s =
              min 20 (length (filter (\<lambda>r. booth_id r = id_booth (booth s)) (line_reports db))) \<and>
            reportCount s \<le> 20)"
proof (intro conjI ballI impI)
  let ?newest = "\<lambda>b. take 20 (rev (sort_key reported_at
                    (filter (\<lambda>r. booth_id r = id_booth b) (line_reports db))))"
  let ?booths = "filter (\<lambda>b. venue_id_booth b = venueId) (merch_booths db)"
  have loaded: "set (boothStatuses (loadBoothStatuses venueId db st)) =
      (\<lambda>b. booth_status b (?newest b)) ` set ?booths"
    by (simp add: loadBoothStatuses_online [OF on])
  {
    fix b
    assume "b \<in> set (merch_booths db)" "venue_id_booth b = venueId"
    then have "booth_status b (?newest b) \<in> set (boothStatuses (loadBoothStatuses venueId db st))"
      unfolding loaded by simp
    then show "\<exists>s \<in> set (boothStatuses (loadBoothStatuses venueId db st)). booth s = b"
      using booth_of_booth_status by blast
  }
  fix s
  assume "s \<in> set (boothStatuses (loadBoothStatuses venueId db st))"
  then obtain b where b: "b \<in> set (merch_booths db)" "venue_id_booth b = venueId"
    and s: "s = booth_status b (?newest b)"
    unfolding loaded by auto
  have bs: "booth s = b"
    by (simp add: s booth_of_booth_status)
  have fetched: "list_line_reports db (id_booth b) 20 = Inr (?newest b)"
    using on by (simp add: list_line_reports_def)
  note facts = booth_status_of_fetched [OF fetched]
  show "booth s \<in> set (merch_booths db)"
    using b bs by simp
  show "venue_id_booth (booth s) = venueId"
    using b bs by simp
  show "\<exists>rs. list_line_reports db (id_booth (booth s)) 20 = Inr rs \<and>
               (rs = [] \<longrightarrow>
                  s = \<lparr>booth = booth s, avgLineLength = 0, avgWaitTime = 0, lastReported = [],
                       reportCount = 0, trend = Stable\<rparr>) \<and>
               (rs \<noteq> [] \<longrightarrow>
                  avgLineLength s =
                    round (real_of_int (sum_list (map line_length rs)) / real (length rs)) \<and>
                  avgWaitTime s =
                    (if List.map_filter wait_time_minutes rs = [] then 0
                     else round (real_of_int (sum_list (List.map_filter wait_time_minutes rs))
                                   / real (length (List.map_filter wait_time_minutes rs)))) \<and>
                  lastReported s = reported_at (hd rs) \<and>
                  (\<forall>r \<in> set (line_reports db).
                     booth_id r = id_booth (booth s) \<longrightarrow> reported_at r \<le> lastReported s)) \<and>
               reportCount s = length rs"
    unfolding s booth_of_booth_status using fetched facts by blast
  show "reportCount s =
              min 20 (length (filter (\<lambda>r. booth_id r = id_booth (booth s)) (line_reports db)))"
    unfolding s booth_of_booth_status by (simp add: booth_status_def min.commute)
  show "reportCount s \<le> 20"
    by (simp add: s booth_status_def)
qed

lemma three_reports_fetched:
  "list_line_reports
     (store_of [report_of ''r1'' 1 None ''2024-01-02'', report_of ''r2'' 2 None ''2024-01-03'',
                report_of ''r3'' 3 None ''2024-01-01''])
     (id_booth booth_b1) 20 =
   Inr [report_of ''r2'' 2 None ''2024-01-03'', report_of ''r1'' 1 None ''2024-01-02'',
        report_of ''r3'' 3 None ''2024-01-01'']"
  by code_simp

lemma three_reports_loaded:
  "boothStatuses (loadBoothStatuses ''v1''
     (store_of [report_of ''r1'' 1 None ''2024-01-02'', report_of ''r2'' 2 None ''2024-01-03'',
                report_of ''r3'' 3 None ''2024-01-01''])
     (form_of [] [])) =
   [\<lparr>booth = booth_b1, avgLineLength = 2, avgWaitTime = 0, lastReported = ''2024-01-03'',
     reportCount = 3, trend = Stable\<rparr>]"
  by code_simp

theorem booth_aggregation_witness:
  "online (store_of [report_of ''r1'' 1 None ''2024-01-02'', report_of ''r2'' 2 None ''2024-01-03'',
                     report_of ''r3'' 3 None ''2024-01-01'']) \<and>
   boothStatuses (loadBoothStatuses ''v1''
     (store_of [report_of ''r1'' 1 None ''2024-01-02'', report_of ''r2'' 2 None ''2024-01-03'',
                report_of ''r3'' 3 None ''2024-01-01''])
     (form_of [] [])) =
   [\<lparr>booth = booth_b1, avgLineLength = 2, avgWaitTime = 0, lastReported = ''2024-01-03'',
     reportCount = 3, trend = Stable\<rparr>] \<and>
   (\<exists>rs. list_line_reports
       (store_of [report_of ''r1'' 1 None ''2024-01-02'', report_of ''r2'' 2 None ''2024-01-03'',
                  report_of ''r3'' 3 None ''2024-01-01''])
       (id_booth booth_b1) 20 = Inr rs \<and>
      rs \<noteq> [] \<and>
      round (real_of_int (sum_list (map line_length rs)) / real (length rs)) = 2 \<and>
      List.map_filter wait_time_minutes rs = [] \<and>
      reported_at (hd rs) = ''2024-01-03'' \<and>
      length rs = 3)"
proof -
  let ?db = "store_of [report_of ''r1'' 1 None ''2024-01-02'', report_of ''r2'' 2 None ''2024-01-03'',
                report_of ''r3'' 3 None ''2024-01-01'']"
  let ?s = "\<lparr>booth = booth_b1, avgLineLength = 2, avgWaitTime = 0, lastReported = ''2024-01-03'',
     reportCount = 3, trend = Stable\<rparr>"
  have on: "online ?db"
    by (simp add: store_of_def)
  have mem: "?s \<in> set (boothStatuses (loadBoothStatuses ''v1'' ?db (form_of [] [])))"
    by (simp add: three_reports_loaded)
  from booth_aggregation [OF on, of "''v1''" "form_of [] []", THEN conjunct2, THEN bspec, OF mem]
  obtain rs where rs: "list_line_reports ?db (id_booth (booth ?s)) 20 = Inr rs"
    and empty: "rs = [] \<longrightarrow>
        ?s = \<lparr>booth = booth ?s, avgLineLength = 0, avgWaitTime = 0, lastReported = [],
              reportCount = 0, trend = Stable\<rparr>"
    and full: "rs \<noteq> [] \<longrightarrow>
        avgLineLength ?s =
          round (real_of_int (sum_list (map line_length rs)) / real (length rs)) \<and>
        avgWaitTime ?s =
          (if List.map_filter wait_time_minutes rs = [] then 0
           else round (real_of_int (sum_list (List.map_filter wait_time_minutes rs))
                         / real (length (List.map_filter wait_time_minutes rs)))) \<and>
        lastReported ?s = reported_at (hd rs) \<and>
        (\<forall>r \<in> set (line_reports ?db).
           booth_id r = id_booth (booth ?s) \<longrightarrow> reported_at r \<le> lastReported ?s)"
    and count: "reportCount ?s = length rs"
    by blast
  from empty have ne: "rs \<noteq> []"
    by auto
  from rs have rs_eq: "rs = [report_of ''r2'' 2 None ''2024-01-03'', report_of ''r1'' 1 None ''2024-01-02'',
        report_of ''r3'' 3 None ''2024-01-01'']"
    using three_reports_fetched by simp
  have waits: "List.map_filter wait_time_minutes rs = []"
    by (simp add: rs_eq report_of_def List.map_filter_simps)
  from full ne have "round (real_of_int (sum_list (map line_length rs)) / real (length rs)) = 2"
    and "reported_at (hd rs) = ''2024-01-03''"
    by simp_all
  with rs ne waits count on three_reports_loaded show ?thesis
    by auto
qed

lemma parseInt_levels:
  "parseInt ''0'' = Some 0" "parseInt ''1'' = Some 1" "parseInt ''2'' = Some 2"
  "parseInt ''3'' = Some 3"
  by code_simp+

lemma parseInt_empty: "parseInt [] = None"
  by (simp add: parseInt_def)

lemma loadBoothStatuses_isReporting:
  "boothStatuses (loadBoothStatuses venueId db (st\<lparr>isReporting := flag\<rparr>)) =
     boothStatuses (loadBoothStatuses venueId db st)"
  by (simp add: loadBoothStatuses_def split: sum.splits)

lemma submitReport_online:
  assumes on: "online db"
    and booth: "truthy (selectedBooth st)"
    and usr: "tracker_user st = Some u"
    and len: "truthy (reportLineLength st)" "parseInt (reportLineLength st) = Some n"
    and wait: "(if truthy (reportWaitTime st)
                then map_option Some (parseInt (reportWaitTime st)) else Some None) = Some w"
  shows "submitReport venueId clock db st =
     Some ((loadBoothStatuses venueId
              (db\<lparr>line_reports := line_reports db @
                    [\<lparr>id_report = ''report_'' @ Date_now clock @ ''_''
                                     @ random_suffix clock,
                      booth_id = selectedBooth st, user_id_report = id_user u,
                      line_length = n, wait_time_minutes = w,
                      reported_at = now_iso clock\<rparr>]\<rparr>)
              (st\<lparr>isReporting := True\<rparr>))
            \<lparr>selectedBooth := [], reportLineLength := [], reportWaitTime := [],
             isReporting := False\<rparr>,
           db\<lparr>line_reports := line_reports db @
                    [\<lparr>id_report = ''report_'' @ Date_now clock @ ''_''
                                     @ random_suffix clock,
                      booth_id = selectedBooth st, user_id_report = id_user u,
                      line_length = n, wait_time_minutes = w,
                      reported_at = now_iso clock\<rparr>]\<rparr>)"
  unfolding submitReport_def usr wait len(2) create_line_report_def
  using on booth len(1) by simp

lemma submitReport_keeps_reports:
  assumes "submitReport venueId clock db st = Some (st1, db1)"
  shows "take (length (line_reports db)) (line_reports db1) = line_reports db"
  using assms
  by (auto simp: submitReport_def create_line_report_def
      split: option.splits if_splits sum.splits prod.splits)

subsection \<open>Submitting a report\<close>

text \<open>
  C7. With a booth chosen, a signed-in user and a line length that is one of the
  four levels 0 to 3 (the wait time being empty or a number), a submission that reaches
  the store appends one new report with that line length, the chosen booth and the user,
  and the booth statuses are loaded again from the new store. Whatever the form holds,
  the reports already in the store are left as they were.
\<close>

theorem submit_appends_report:
  "(online db \<and> truthy (selectedBooth st) \<and> tracker_user st = Some u \<and>
    (reportLineLength st, level) \<in> set [(''0'', 0), (''1'', 1), (''2'', 2), (''3'', 3)] \<and>
    (truthy (reportWaitTime st) \<longrightarrow> parseInt (reportWaitTime st) \<noteq> None) \<longrightarrow>
      (\<exists>r st1 db1.
         submitReport venueId clock db st = Some (st1, db1) \<and>
         line_reports db1 = line_reports db @ [r] \<and>
         line_length r = level \<and>
         booth_id r = selectedBooth st \<and>
         user_id_report r = id_user u \<and>
         wait_time_minutes r =
           (if truthy (reportWaitTime st) then parseInt (reportWaitTime st) else None) \<and>
         boothStatuses st1 = boothStatuses (loadBoothStatuses venueId db1 st) \<and>
         submit_disabled st = isReporting st)) \<and>
   (\<forall>st1 db1. submitReport venueId clock db st = Some (st1, db1) \<longrightarrow>
      take (length (line_reports db)) (line_reports db1) = line_reports db)"
proof (intro conjI impI allI)
  assume a: "online db \<and> truthy (selectedBooth st) \<and> tracker_user st = Some u \<and>
    (reportLineLength st, level) \<in> set [(''0'', 0), (''1'', 1), (''2'', 2), (''3'', 3)] \<and>
    (truthy (reportWaitTime st) \<longrightarrow> parseInt (reportWaitTime st) \<noteq> None)"
  then have on: "online db" and booth: "truthy (selectedBooth st)"
    and usr: "tracker_user st = Some u" by simp_all
  from a have len: "truthy (reportLineLength st)" "parseInt (reportLineLength st) = Some level"
    by (auto simp: truthy_def parseInt_levels)
  define w where "w = (if truthy (reportWaitTime st) then parseInt (reportWaitTime st) else None)"
  from a have wait: "(if truthy (reportWaitTime st)
                then map_option Some (parseInt (reportWaitTime st)) else Some None) = Some w"
    by (auto simp: w_def)
  from submitReport_online [OF on booth usr len wait, of venueId clock] booth len(1)
  show "\<exists>r st1 db1.
         submitReport venueId clock db st = Some (st1, db1) \<and>
         line_reports db1 = line_reports db @ [r] \<and>
         line_length r = level \<and>
         booth_id r = selectedBooth st \<and>
         user_id_report r = id_user u \<and>
         wait_time_minutes r =
           (if truthy (reportWaitTime st) then parseInt (reportWaitTime st) else None) \<and>
         boothStatuses st1 = boothStatuses (loadBoothStatuses venueId db1 st) \<and>
         submit_disabled st = isReporting st"
    by (simp add: w_def loadBoothStatuses_isReporting submit_disabled_def)
next
  fix st1 db1
  assume "submitReport venueId clock db st = Some (st1, db1)"
  then show "take (length (line_reports db)) (line_reports db1) = line_reports db"
    by (rule submitReport_keeps_reports)
qed

theorem submit_appends_report_witness:
  "(online (store_of [report_of ''r1'' 1 None ''2024-01-02'']) \<and>
    truthy (selectedBooth (form_of ''2'' ''5'')) \<and>
    tracker_user (form_of ''2'' ''5'') = Some user_u1 \<and>
    (reportLineLength (form_of ''2'' ''5''), 2 :: int) \<in> set [(''0'', 0), (''1'', 1), (''2'', 2), (''3'', 3)] \<and>
    truthy (reportWaitTime (form_of ''2'' ''5'')) \<and>
    parseInt (reportWaitTime (form_of ''2'' ''5'')) \<noteq> None) \<and>
   (\<exists>r st1 db1.
      submitReport ''v1'' clock_0 (store_of [report_of ''r1'' 1 None ''2024-01-02''])
        (form_of ''2'' ''5'') = Some (st1, db1) \<and>
      line_reports db1 = [report_of ''r1'' 1 None ''2024-01-02'', r] \<and>
      line_length r = 2 \<and> booth_id r = ''b1'' \<and> user_id_report r = ''u1'' \<and>
      wait_time_minutes r = Some 5)"
proof -
  have five: "parseInt ''5'' = Some 5"
    by code_simp
  have h: "online (store_of [report_of ''r1'' 1 None ''2024-01-02'']) \<and>
    truthy (selectedBooth (form_of ''2'' ''5'')) \<and>
    tracker_user (form_of ''2'' ''5'') = Some user_u1 \<and>
    (reportLineLength (form_of ''2'' ''5''), 2 :: int) \<in> set [(''0'', 0), (''1'', 1), (''2'', 2), (''3'', 3)] \<and>
    (truthy (reportWaitTime (form_of ''2'' ''5'')) \<longrightarrow>
       parseInt (reportWaitTime (form_of ''2'' ''5'')) \<noteq> None)"
    by (simp add: store_of_def form_of_def truthy_def five)
  from submit_appends_report [THEN conjunct1, THEN mp, OF h, of "''v1''" clock_0]
  obtain r st1 db1 where
    "submitReport ''v1'' clock_0 (store_of [report_of ''r1'' 1 None ''2024-01-02''])
        (form_of ''2'' ''5'') = Some (st1, db1)"
    "line_reports db1 = line_reports (store_of [report_of ''r1'' 1 None ''2024-01-02'']) @ [r]"
    "line_length r = 2" "booth_id r = selectedBooth (form_of ''2'' ''5'')"
    "user_id_report r = id_user user_u1"
    "wait_time_minutes r =
       (if truthy (reportWaitTime (form_of ''2'' ''5''))
        then parseInt (reportWaitTime (form_of ''2'' ''5'')) else None)"
    by blast
  then have "submitReport ''v1'' clock_0 (store_of [report_of ''r1'' 1 None ''2024-01-02''])
        (form_of ''2'' ''5'') = Some (st1, db1) \<and>
      line_reports db1 = [report_of ''r1'' 1 None ''2024-01-02'', r] \<and>
      line_length r = 2 \<and> booth_id r = ''b1'' \<and> user_id_report r = ''u1'' \<and>
      wait_time_minutes r = Some 5"
    by (simp add: store_of_def form_of_def user_u1_def truthy_def five)
  moreover have "truthy (reportWaitTime (form_of ''2'' ''5''))"
    by (simp add: form_of_def truthy_def)
  ultimately show ?thesis using h by blast
qed

lemma mean_wait_time_Cons_Some:
  "wait_time_minutes r0 = Some w \<Longrightarrow>
   mean_wait_time (r0 # rs) =
     real_of_int (w + sum_list (List.map_filter wait_time_minutes rs))
       / real (Suc (length (List.map_filter wait_time_minutes rs)))"
  by (simp add: mean_wait_time_eq List.map_filter_simps)

lemma mean_wait_time_Cons_None:
  "wait_time_minutes r0 = None \<Longrightarrow> mean_wait_time (r0 # rs) = mean_wait_time rs"
  by (simp add: mean_wait_time_eq List.map_filter_simps)

subsection \<open>The option ``No wait''\<close>

text \<open>
  C10 (amended). The string \<open>''0''\<close> is truthy, so with the wait-time input
  \<open>''0''\<close> the created report stores the wait time 0, not null; only the empty input
  stores null. A report with wait time 0 counts in the mean of the wait times (it adds
  nothing to the sum and one to the number of reports with a wait time), whereas a report
  without a wait time is left out.
\<close>

theorem no_wait_is_stored_as_zero:
  "(online db \<and> truthy (selectedBooth st) \<and> tracker_user st = Some u \<and>
    parseInt (reportLineLength st) = Some n \<longrightarrow>
      (reportWaitTime st = ''0'' \<longrightarrow>
         (\<exists>r st1 db1. submitReport venueId clock db st = Some (st1, db1) \<and>
            line_reports db1 = line_reports db @ [r] \<and> wait_time_minutes r = Some 0)) \<and>
      (reportWaitTime st = [] \<longrightarrow>
         (\<exists>r st1 db1. submitReport venueId clock db st = Some (st1, db1) \<and>
            line_reports db1 = line_reports db @ [r] \<and> wait_time_minutes r = None))) \<and>
   (wait_time_minutes r0 = Some 0 \<longrightarrow>
      mean_wait_time (r0 # rs) =
        real_of_int (sum_list (List.map_filter wait_time_minutes rs))
          / real (Suc (length (List.map_filter wait_time_minutes rs)))) \<and>
   (wait_time_minutes r0 = None \<longrightarrow> mean_wait_time (r0 # rs) = mean_wait_time rs)"
proof (intro conjI impI)
  assume a: "online db \<and> truthy (selectedBooth st) \<and> tracker_user st = Some u \<and>
    parseInt (reportLineLength st) = Some n"
  then have on: "online db" and booth: "truthy (selectedBooth st)"
    and usr: "tracker_user st = Some u" and len: "parseInt (reportLineLength st) = Some n"
    by simp_all
  from len have tr: "truthy (reportLineLength st)"
    by (auto simp: truthy_def parseInt_empty)
  {
    assume w: "reportWaitTime st = ''0''"
    then have wait: "(if truthy (reportWaitTime st)
                then map_option Some (parseInt (reportWaitTime st)) else Some None) = Some (Some 0)"
      by (simp add: truthy_def parseInt_levels)
    from submitReport_online [OF on booth usr tr len wait, of venueId clock]
    show "\<exists>r st1 db1. submitReport venueId clock db st = Some (st1, db1) \<and>
            line_reports db1 = line_reports db @ [r] \<and> wait_time_minutes r = Some 0"
      by simp
  }
  {
    assume w: "reportWaitTime st = []"
    then have wait: "(if truthy (reportWaitTime st)
                then map_option Some (parseInt (reportWaitTime st)) else Some None) = Some None"
      by (simp add: truthy_def)
    from submitReport_online [OF on booth usr tr len wait, of venueId clock]
    show "\<exists>r st1 db1. submitReport venueId clock db st = Some (st1, db1) \<and>
            line_reports db1 = line_reports db @ [r] \<and> wait_time_minutes r = None"
      by simp
  }
next
  assume "wait_time_minutes r0 = Some 0"
  from mean_wait_time_Cons_Some [OF this, of rs]
  show "mean_wait_time (r0 # rs) =
        real_of_int (sum_list (List.map_filter wait_time_minutes rs))
          / real (Suc (length (List.map_filter wait_time_minutes rs)))"
    by simp
next
  assume "wait_time_minutes r0 = None"
  then show "mean_wait_time (r0 # rs) = mean_wait_time rs"
    by (rule mean_wait_time_Cons_None)
qed

theorem no_wait_is_stored_as_zero_witness:
  "(online (store_of []) \<and> truthy (selectedBooth (form_of ''3'' ''0'')) \<and>
    tracker_user (form_of ''3'' ''0'') = Some user_u1 \<and>
    parseInt (reportLineLength (form_of ''3'' ''0'')) = Some 3) \<and>
   reportWaitTime (form_of ''3'' ''0'') = ''0'' \<and>
   (\<exists>r st1 db1. submitReport ''v1'' clock_0 (store_of []) (form_of ''3'' ''0'') = Some (st1, db1) \<and>
      line_reports db1 = line_reports (store_of []) @ [r] \<and> wait_time_minutes r = Some 0) \<and>
   wait_time_minutes (report_of ''r1'' 3 (Some 0) ''t2'') = Some 0 \<and>
   mean_wait_time [report_of ''r1'' 3 (Some 0) ''t2'', report_of ''r2'' 3 (Some 10) ''t1''] = 5"
proof -
  have h: "online (store_of []) \<and> truthy (selectedBooth (form_of ''3'' ''0'')) \<and>
    tracker_user (form_of ''3'' ''0'') = Some user_u1 \<and>
    parseInt (reportLineLength (form_of ''3'' ''0'')) = Some 3"
    by (simp add: store_of_def form_of_def truthy_def parseInt_levels)
  have w: "reportWaitTime (form_of ''3'' ''0'') = ''0''"
    by (simp add: form_of_def)
  have z: "wait_time_minutes (report_of ''r1'' 3 (Some 0) ''t2'') = Some 0"
    by (simp add: report_of_def)
  note t = no_wait_is_stored_as_zero [of "store_of []" "form_of ''3'' ''0''" user_u1 3 "''v1''" clock_0
      "report_of ''r1'' 3 (Some 0) ''t2''" "[report_of ''r2'' 3 (Some 10) ''t1'']"]
  from t [THEN conjunct1, THEN mp, OF h, THEN conjunct1, THEN mp, OF w]
  have e: "\<exists>r st1 db1. submitReport ''v1'' clock_0 (store_of []) (form_of ''3'' ''0'') = Some (st1, db1) \<and>
      line_reports db1 = line_reports (store_of []) @ [r] \<and> wait_time_minutes r = Some 0" .
  from t [THEN conjunct2, THEN conjunct1, THEN mp, OF z]
  have m: "mean_wait_time [report_of ''r1'' 3 (Some 0) ''t2'', report_of ''r2'' 3 (Some 10) ''t1''] = 5"
    by (simp add: List.map_filter_simps report_of_def)
  from h w e z m show ?thesis by blast
qed

text \<open>
  C10 as stated fails: submitting with the wait-time input \<open>''0''\<close> stores
  \<open>Some 0\<close>, and the average wait of a report with 0 minutes and one with 10 minutes is
  5, not the 10 that leaving the first out would give.
\<close>

theorem no_wait_null_counterexample:
  "map_option (\<lambda>(st1, db1). map wait_time_minutes (line_reports db1))
     (submitReport ''v1'' clock_0 (store_of []) (form_of ''2'' ''0'')) = Some [Some 0] \<and>
   avgWaitTime (booth_status booth_b1
     [report_of ''r1'' 2 (Some 0) ''t2'', report_of ''r2'' 2 (Some 10) ''t1'']) = 5 \<and>
   avgWaitTime (booth_status booth_b1
     [report_of ''r1'' 2 None ''t2'', report_of ''r2'' 2 (Some 10) ''t1'']) = 10"
proof -
  have "map_option (\<lambda>(st1, db1). map wait_time_minutes (line_reports db1))
     (submitReport ''v1'' clock_0 (store_of []) (form_of ''2'' ''0'')) = Some [Some 0]"
    using submitReport_online [of "store_of []" "form_of ''2'' ''0''" user_u1 2 "Some 0" "''v1''" clock_0]
    by (simp add: store_of_def form_of_def truthy_def parseInt_levels)
  moreover have "avgWaitTime (booth_status booth_b1
     [report_of ''r1'' 2 (Some 0) ''t2'', report_of ''r2'' 2 (Some 10) ''t1'']) = 5"
    by code_simp
  moreover have "avgWaitTime (booth_status booth_b1
     [report_of ''r1'' 2 None ''t2'', report_of ''r2'' 2 (Some 10) ''t1'']) = 10"
    by code_simp
  ultimately show ?thesis by blast
qed

section \<open>Properties of the location list\<close>

lemma replace_keeps_ids:
  "map id_loc (map (\<lambda>l. if id_loc l = id_loc r then r else l) rows) = map id_loc rows"
  by (induction rows) auto

lemma replace_filter_absent:
  "id_loc r \<notin> set (map id_loc rows) \<Longrightarrow>
   filter (\<lambda>l. id_loc l = id_loc r) (map (\<lambda>l. if id_loc l = id_loc r then r else l) rows) = []"
  by (induction rows) auto

lemma replace_filter_present:
  "distinct (map id_loc rows) \<Longrightarrow> id_loc r \<in> set (map id_loc rows) \<Longrightarrow>
   filter (\<lambda>l. id_loc l = id_loc r) (map (\<lambda>l. if id_loc l = id_loc r then r else l) rows) = [r]"
proof (induction rows)
  case Nil
  then show ?case by simp
next
  case (Cons a rows)
  show ?case
  proof (cases "id_loc a = id_loc r")
    case True
    with Cons.prems have "id_loc r \<notin> set (map id_loc rows)" by auto
    from replace_filter_absent [OF this] True show ?thesis by simp
  next
    case False
    with Cons show ?thesis by auto
  qed
qed

lemma upsert_online:
  "online db \<Longrightarrow>
   upsert_user_location db r =
     Inr (db\<lparr>user_locations := rows_after_upsert (user_locations db) r\<rparr>)"
  by (simp add: upsert_user_location_def)

lemma filter_absent_id:
  "id_loc r \<notin> set (map id_loc rows) \<Longrightarrow> filter (\<lambda>l. id_loc l = id_loc r) rows = []"
  by (induction rows) auto

lemma rows_after_upsert_filter:
  assumes "distinct (map id_loc rows)"
  shows "filter (\<lambda>l. id_loc l = id_loc r) (rows_after_upsert rows r) = [r]"
proof (cases "id_loc r \<in> set (map id_loc rows)")
  case True
  then show ?thesis
    unfolding rows_after_upsert_def using replace_filter_present [OF assms True] by simp
next
  case False
  from filter_absent_id [OF this] False show ?thesis
    unfolding rows_after_upsert_def by simp
qed

lemma rows_after_upsert_ids:
  "map id_loc (rows_after_upsert rows r) =
     (if id_loc r \<in> set (map id_loc rows) then map id_loc rows else map id_loc rows @ [id_loc r])"
  unfolding rows_after_upsert_def using replace_keeps_ids [of r rows] by simp

lemma rows_after_upsert_distinct:
  "distinct (map id_loc rows) \<Longrightarrow> distinct (map id_loc (rows_after_upsert rows r))"
  unfolding rows_after_upsert_ids by simp

lemma rows_after_upsert_length:
  "length (rows_after_upsert rows r) =
     (if id_loc r \<in> set (map id_loc rows) then length rows else Suc (length rows))"
  unfolding rows_after_upsert_def by simp

lemma rows_after_upsert_again:
  assumes "id_loc r2 = id_loc r"
  shows "length (rows_after_upsert (rows_after_upsert rows r) r2) = length (rows_after_upsert rows r)"
proof -
  have "id_loc r2 \<in> set (map id_loc (rows_after_upsert rows r))"
    unfolding rows_after_upsert_ids using assms by simp
  then show ?thesis
    unfolding rows_after_upsert_length [of "rows_after_upsert rows r" r2] by simp
qed

lemma handleLocationUpdate_online:
  assumes "online db" "app_user st = Some u" "currentRoom st = Some room"
  shows "fst (snd (handleLocationUpdate db ch st x y sec)) =
           db\<lparr>user_locations := rows_after_upsert (user_locations db) (locationData_of u room x y sec)\<rparr>"
    and "app_user (fst (handleLocationUpdate db ch st x y sec)) = Some u"
    and "currentRoom (fst (handleLocationUpdate db ch st x y sec)) = Some room"
    and "myLocation (fst (handleLocationUpdate db ch st x y sec)) = Some (x, y)"
  using assms
  by (simp_all add: handleLocationUpdate_def upsert_online Let_def split: sum.splits)

lemma on_message_distinct:
  "distinct (map user_id locs) \<Longrightarrow> distinct (map user_id (on_message locs m))"
  by (cases m) (auto simp: distinct_map_filter)

lemma foldl_on_message_distinct:
  "distinct (map user_id locs) \<Longrightarrow> distinct (map user_id (foldl on_message locs ms))"
  by (induction ms arbitrary: locs) (simp_all add: on_message_distinct)

subsection \<open>One location per user\<close>

text \<open>
  C8. The location record written for a user in a room has the id made of the user
  id, a dash and the room id (\<open>''u1-R1''\<close> for user u1 in room R1). In a store whose rows
  have distinct ids, two writes by the same user in the same room leave exactly one row
  with that id, the second write's, and the second write does not add a row. Applying a
  realtime message keeps the user ids of the list distinct; after a location update the
  list holds exactly one entry for that user, the new one; after a user-left message it
  holds none for that user; so from the empty list every sequence of messages gives a
  list with at most one entry per user.
\<close>

theorem one_location_per_user:
  fixes u :: User and room :: Room
  defines "key \<equiv> id_user u @ ''-'' @ id_room room"
  shows "id_loc (locationData_of u room x y sec) = key \<and>
         (id_user u = ''u1'' \<and> id_room room = ''R1'' \<longrightarrow>
            id_loc (locationData_of u room x y sec) = ''u1-R1'') \<and>
         (online db \<and> app_user st = Some u \<and> currentRoom st = Some room \<and>
          distinct (map id_loc (user_locations db)) \<longrightarrow>
            (let first = handleLocationUpdate db ch st x y sec;
                 db1 = fst (snd first);
                 second = handleLocationUpdate db1 (snd (snd first)) (fst first) x2 y2 sec2;
                 db2 = fst (snd second)
             in filter (\<lambda>l. id_loc l = key) (user_locations db1) = [locationData_of u room x y sec] \<and>
                filter (\<lambda>l. id_loc l = key) (user_locations db2) = [locationData_of u room x2 y2 sec2] \<and>
                length (user_locations db2) = length (user_locations db1) \<and>
                distinct (map id_loc (user_locations db2)))) \<and>
         (distinct (map user_id locs) \<longrightarrow> distinct (map user_id (on_message locs m))) \<and>
         filter (\<lambda>l. user_id l = user_id d) (on_message locs (LocationUpdate d)) = [d] \<and>
         filter (\<lambda>l. user_id l = uid) (on_message locs (UserLeft uid)) = [] \<and>
         distinct (map user_id (foldl on_message [] ms))"
proof -
  have key: "id_loc (locationData_of u room x y sec) = key" for x y sec
    by (simp add: locationData_of_def key_def)
  have named: "id_user u = ''u1'' \<and> id_room room = ''R1'' \<longrightarrow>
            id_loc (locationData_of u room x y sec) = ''u1-R1''"
    by (simp add: locationData_of_def)
  have writes: "(let first = handleLocationUpdate db ch st x y sec;
                 db1 = fst (snd first);
                 second = handleLocationUpdate db1 (snd (snd first)) (fst first) x2 y2 sec2;
                 db2 = fst (snd second)
             in filter (\<lambda>l. id_loc l = key) (user_locations db1) = [locationData_of u room x y sec] \<and>
                filter (\<lambda>l. id_loc l = key) (user_locations db2) = [locationData_of u room x2 y2 sec2] \<and>
                length (user_locations db2) = length (user_locations db1) \<and>
                distinct (map id_loc (user_locations db2)))"
    if a: "online db \<and> app_user st = Some u \<and> currentRoom st = Some room \<and>
          distinct (map id_loc (user_locations db))"
  proof -
    let ?r1 = "locationData_of u room x y sec" and ?r2 = "locationData_of u room x2 y2 sec2"
    let ?first = "handleLocationUpdate db ch st x y sec"
    let ?rows1 = "rows_after_upsert (user_locations db) ?r1"
    from a have on: "online db" and usr: "app_user st = Some u"
      and rm: "currentRoom st = Some room" and dist: "distinct (map id_loc (user_locations db))"
      by simp_all
    note h1 = handleLocationUpdate_online [OF on usr rm, of ch x y sec]
    have db1: "fst (snd ?first) = db\<lparr>user_locations := ?rows1\<rparr>"
      by (rule h1(1))
    have on1: "online (fst (snd ?first))"
      by (simp add: db1 on)
    note h2 = handleLocationUpdate_online [OF on1 h1(2) h1(3), of "snd (snd ?first)" x2 y2 sec2]
    have db2: "user_locations (fst (snd (handleLocationUpdate (fst (snd ?first)) (snd (snd ?first))
                 (fst ?first) x2 y2 sec2))) = rows_after_upsert ?rows1 ?r2"
      unfolding h2(1) by (simp add: db1)
    have d1: "distinct (map id_loc ?rows1)"
      using dist by (rule rows_after_upsert_distinct)
    have f1: "filter (\<lambda>l. id_loc l = key) ?rows1 = [?r1]"
      using rows_after_upsert_filter [OF dist, of ?r1] by (simp add: key)
    have f2: "filter (\<lambda>l. id_loc l = key) (rows_after_upsert ?rows1 ?r2) = [?r2]"
      using rows_after_upsert_filter [OF d1, of ?r2] by (simp add: key)
    have l2: "length (rows_after_upsert ?rows1 ?r2) = length ?rows1"
      by (rule rows_after_upsert_again) (simp add: key)
    have d2: "distinct (map id_loc (rows_after_upsert ?rows1 ?r2))"
      using d1 by (rule rows_after_upsert_distinct)
    show ?thesis
      unfolding Let_def db2 using f1 f2 l2 d2 by (simp add: db1)
  qed
  have upd: "filter (\<lambda>l. user_id l = user_id d) (on_message locs (LocationUpdate d)) = [d]"
    by (simp add: filter_empty_conv)
  have left: "filter (\<lambda>l. user_id l = uid) (on_message locs (UserLeft uid)) = []"
    by (simp add: filter_empty_conv)
  have run: "distinct (map user_id (foldl on_message [] ms))"
    by (rule foldl_on_message_distinct) simp
  from key named writes on_message_distinct [of locs m] upd left run
  show ?thesis by blast
qed

theorem one_location_per_user_witness:
  "(online (store_of []) \<and> app_user app_0 = Some user_u1 \<and> currentRoom app_0 = Some room_R1 \<and>
    distinct (map id_loc (user_locations (store_of [])))) \<and>
   filter (\<lambda>l. id_loc l = ''u1-R1'')
     (user_locations (fst (snd (handleLocationUpdate
        (fst (snd (handleLocationUpdate (store_of []) channel_0 app_0 10 20 (Some ''Floor''))))
        (snd (snd (handleLocationUpdate (store_of []) channel_0 app_0 10 20 (Some ''Floor''))))
        (fst (handleLocationUpdate (store_of []) channel_0 app_0 10 20 (Some ''Floor'')))
        30 40 None)))) = [locationData_of user_u1 room_R1 30 40 None] \<and>
   distinct (map user_id [locationData_of user_u1 room_R1 1 2 None]) \<and>
   distinct (map user_id (on_message [locationData_of user_u1 room_R1 1 2 None]
      (LocationUpdate (locationData_of user_u1 room_R1 3 4 None))))"
proof -
  have h: "online (store_of []) \<and> app_user app_0 = Some user_u1 \<and>
      currentRoom app_0 = Some room_R1 \<and> distinct (map id_loc (user_locations (store_of [])))"
    by (simp add: store_of_def app_0_def)
  have d: "distinct (map user_id [locationData_of user_u1 room_R1 1 2 None])"
    by simp
  note t = one_location_per_user [where u = user_u1 and room = room_R1 and x = 10 and y = 20
      and sec = "Some ''Floor''" and db = "store_of []" and st = app_0 and ch = channel_0
      and ?x2.0 = 30 and ?y2.0 = 40 and ?sec2.0 = None
      and locs = "[locationData_of user_u1 room_R1 1 2 None]"
      and m = "LocationUpdate (locationData_of user_u1 room_R1 3 4 None)"]
  from t [THEN conjunct2, THEN conjunct2, THEN conjunct1, THEN mp, OF h]
  have w: "filter (\<lambda>l. id_loc l = ''u1-R1'')
     (user_locations (fst (snd (handleLocationUpdate
        (fst (snd (handleLocationUpdate (store_of []) channel_0 app_0 10 20 (Some ''Floor''))))
        (snd (snd (handleLocationUpdate (store_of []) channel_0 app_0 10 20 (Some ''Floor''))))
        (fst (handleLocationUpdate (store_of []) channel_0 app_0 10 20 (Some ''Floor'')))
        30 40 None)))) = [locationData_of user_u1 room_R1 30 40 None]"
    by (simp add: Let_def user_u1_def room_R1_def)
  from t [THEN conjunct2, THEN conjunct2, THEN conjunct2, THEN conjunct1, THEN mp, OF d]
  have m: "distinct (map user_id (on_message [locationData_of user_u1 room_R1 1 2 None]
      (LocationUpdate (locationData_of user_u1 room_R1 3 4 None))))" .
  from h w d m show ?thesis by blast
qed

end
